theory Spec2Isabelle
  imports Complex_Main
begin

section \<open>JavaScript numbers\<close>

text \<open>
  A JavaScript number is a double: NaN, the two infinities, or a finite value.
  Finite doubles are read as reals, so rounding is not part of this model; the
  special values and the way comparisons and arithmetic treat them are.
\<close>

datatype jsnum = NaN | NegInf | Fin real | PosInf

text \<open>\<^verbatim>\<open>a < b\<close>: false as soon as one side is NaN.\<close>

fun js_lt :: "jsnum \<Rightarrow> jsnum \<Rightarrow> bool" where
  "js_lt NaN _ = False"
| "js_lt _ NaN = False"
| "js_lt PosInf _ = False"
| "js_lt _ NegInf = False"
| "js_lt NegInf _ = True"
| "js_lt _ PosInf = True"
| "js_lt (Fin a) (Fin b) = (a < b)"

text \<open>\<^verbatim>\<open>a > b\<close> is \<^verbatim>\<open>b < a\<close>.\<close>

definition js_gt :: "jsnum \<Rightarrow> jsnum \<Rightarrow> bool" where
  "js_gt a b = js_lt b a"

text \<open>\<^verbatim>\<open>a >= b\<close>: false on NaN, otherwise the negation of \<^verbatim>\<open>a < b\<close>.\<close>

definition js_ge :: "jsnum \<Rightarrow> jsnum \<Rightarrow> bool" where
  "js_ge a b = (a \<noteq> NaN \<and> b \<noteq> NaN \<and> \<not> js_lt a b)"

definition js_le :: "jsnum \<Rightarrow> jsnum \<Rightarrow> bool" where
  "js_le a b = js_ge b a"

text \<open>\<^verbatim>\<open>a + b\<close>: NaN is absorbing and the opposite infinities add up to NaN.\<close>

fun js_add :: "jsnum \<Rightarrow> jsnum \<Rightarrow> jsnum" where
  "js_add NaN _ = NaN"
| "js_add _ NaN = NaN"
| "js_add PosInf NegInf = NaN"
| "js_add NegInf PosInf = NaN"
| "js_add PosInf _ = PosInf"
| "js_add _ PosInf = PosInf"
| "js_add NegInf _ = NegInf"
| "js_add _ NegInf = NegInf"
| "js_add (Fin a) (Fin b) = Fin (a + b)"

text \<open>\<^verbatim>\<open>a * b\<close>: an infinity times zero is NaN, otherwise the signs multiply.\<close>

fun js_sgn_inf :: "real \<Rightarrow> jsnum" where
  "js_sgn_inf s = (if s = 0 then NaN else if 0 < s then PosInf else NegInf)"

fun js_mul :: "jsnum \<Rightarrow> jsnum \<Rightarrow> jsnum" where
  "js_mul NaN _ = NaN"
| "js_mul _ NaN = NaN"
| "js_mul (Fin a) (Fin b) = Fin (a * b)"
| "js_mul PosInf (Fin b) = js_sgn_inf b"
| "js_mul NegInf (Fin b) = js_sgn_inf (- b)"
| "js_mul (Fin a) PosInf = js_sgn_inf a"
| "js_mul (Fin a) NegInf = js_sgn_inf (- a)"
| "js_mul PosInf PosInf = PosInf"
| "js_mul NegInf NegInf = PosInf"
| "js_mul PosInf NegInf = NegInf"
| "js_mul NegInf PosInf = NegInf"

text \<open>A number that is neither NaN nor an infinity.\<close>

fun js_finite :: "jsnum \<Rightarrow> bool" where
  "js_finite (Fin _) = True"
| "js_finite _ = False"


section \<open>Audit results\<close>

text \<open>
  An audit returns either one of the shared not-applicable products
  (\<^verbatim>\<open>auditNotApplicable.NoAdRendered\<close>, \<^verbatim>\<open>auditNotApplicable(NOT_APPLICABLE.NO_TAG)\<close>, ...)
  or a product it builds itself. The fields an audit leaves out are \<open>None\<close>.
\<close>

datatype notApplicable = NoAdRendered | NoLayoutShifts | NO_TAG | NO_BIDS

datatype runWarning = Warning_NoAdRendered

record 'd Product =
  numericValue :: jsnum
  numericUnit :: "string option"
  score :: jsnum
  displayValue :: "string option"
  details :: "'d option"

datatype 'd auditResult = NotApplicable notApplicable | Result "'d Product"

text \<open>\<^verbatim>\<open>s || d\<close> on an optional string: \<^verbatim>\<open>undefined\<close> and the empty string are falsy.\<close>

definition js_or_string :: "string option \<Rightarrow> string \<Rightarrow> string" where
  "js_or_string s d = (case s of None \<Rightarrow> d | Some v \<Rightarrow> if v = [] then d else v)"


section \<open>FirstAdPaint (first-ad-paint, src/unnamed/part 000)\<close>

definition PODR :: jsnum where
  "PODR = Fin 3000"

definition MEDIAN :: jsnum where
  "MEDIAN = Fin 4000"

text \<open>
  The audit's context: the run warnings it may push to. \<open>scoreCalls\<close> is the log of
  the calls made to \<^verbatim>\<open>Audit.computeLogNormalScore\<close>, the argument triple of each call
  in order; the audit appends to it whenever it evaluates the curve, so that what the
  curve is called with can be stated.
\<close>

record Context =
  LighthouseRunWarnings :: "runWarning list"
  scoreCalls :: "(jsnum \<times> jsnum \<times> jsnum) list"

text \<open>
  \<^verbatim>\<open>FirstAdPaint.audit\<close>. \<open>computeLogNormalScore\<close> is Lighthouse's curve evaluator, a
  parameter here; \<open>timing\<close> is the field of that name of the awaited
  \<^verbatim>\<open>AdPaintTime.request(metricData, context)\<close>; \<open>str_displayValue\<close> stands for
  \<^verbatim>\<open>str_(UIStrings.displayValue, {timeInMs: timing})\<close>.
\<close>

definition FirstAdPaint_audit ::
  "(jsnum \<Rightarrow> jsnum \<Rightarrow> jsnum \<Rightarrow> jsnum) \<Rightarrow> (jsnum \<Rightarrow> string) \<Rightarrow> jsnum \<Rightarrow> Context
    \<Rightarrow> unit auditResult \<times> Context" where
  "FirstAdPaint_audit computeLogNormalScore str_displayValue timing context =
     (if \<not> js_gt timing (Fin 0) then
        (NotApplicable NoAdRendered,
         context\<lparr>LighthouseRunWarnings :=
           LighthouseRunWarnings context @ [Warning_NoAdRendered]\<rparr>)
      else
        let normalScore = computeLogNormalScore timing PODR MEDIAN;
            context = context\<lparr>scoreCalls := scoreCalls context @ [(timing, PODR, MEDIAN)]\<rparr>;
            normalScore = (if js_ge normalScore (Fin (9 / 10)) then Fin 1 else normalScore)
        in (Result \<lparr>numericValue = js_mul timing (Fin (1 / 1000)),
                    numericUnit = None,
                    score = normalScore,
                    displayValue = Some (str_displayValue timing),
                    details = None\<rparr>,
            context))"


section \<open>CumulativeAdShift (audits/cumulative-ad-shift.js)\<close>

text \<open>
  Trace events are parsed JSON: a timestamp, a shift score and the coordinates of a
  rectangle are finite numbers, and a field of the payload may be missing
  (\<open>None\<close> is \<^verbatim>\<open>undefined\<close>). The two flags are read for their truthiness only, so a
  missing flag is \<open>False\<close>.
\<close>

record Node =
  old_rect :: "real list option"

record Data =
  is_main_frame :: bool
  had_recent_input :: bool
  score :: "real option"
  impacted_nodes :: "Node list option"

record Args =
  data :: "Data option"

record TraceEvent =
  name :: string
  ts :: real
  args :: "Args option"

text \<open>
  An iframe element artifact. Its client rectangle is of the type \<open>'r\<close> of rectangles
  that the geometry helpers work on.
\<close>

record 'r IFrameElement =
  src :: string
  clientRect :: "'r"

text \<open>
  The two functions of \<^verbatim>\<open>utils/geometry\<close> that the audit imports are parameters
  of the model.
\<close>

record 'r Geometry =
  overlaps :: "'r \<Rightarrow> 'r \<Rightarrow> bool"
  toClientRect :: "real list \<Rightarrow> 'r"

text \<open>
  A network record, with the fields the audits read. A simulated node timing has the
  same two time fields, which is what lets the source read them from either object
  (\<^verbatim>\<open>timingsByRecord.get(bid) || bid\<close>); the record of requests extends the one of
  timings for that reason. Times of the network log and of the simulation are finite.
  \<open>requestId\<close> identifies a record of the log, so that \<^verbatim>\<open>Set.has\<close> and \<^verbatim>\<open>Map.get\<close>,
  which compare objects, are membership and lookup by value here. The rows of the
  failure table come first, so that a plain \<open>url\<close> is the field of a request.
\<close>

record TableRow =
  bidder :: string
  url :: string
  startTime :: real
  duration :: real

record NodeTiming =
  startTime :: real
  endTime :: real

record NetworkRequest = NodeTiming +
  requestId :: string
  url :: string
  frameId :: "string option"

text \<open>
  The functions of \<^verbatim>\<open>utils/resource-classification\<close> that the audits import, as
  parameters of the model. \<^verbatim>\<open>getHeaderBidder\<close> returns \<^verbatim>\<open>undefined\<close> for a URL of
  no known bidder.
\<close>

record 'r ResourceClassification =
  isAdIframe :: "'r IFrameElement \<Rightarrow> bool"
  isImplTag :: "string \<Rightarrow> bool"
  isBidRequest :: "NetworkRequest \<Rightarrow> bool"
  getAbbreviatedUrl :: "string \<Rightarrow> string"
  getHeaderBidder :: "string \<Rightarrow> string option"

record ScoreOptions =
  p10 :: jsnum
  median :: jsnum

definition defaultOptions :: ScoreOptions where
  "defaultOptions = \<lparr>p10 = Fin (5 / 100), median = Fin (25 / 100)\<rparr>"

record Details =
  cumulativeShift :: jsnum
  numShifts :: nat
  cumulativeAdShift :: jsnum
  numAdShifts :: nat
  cumulativePreImplTagAdShift :: jsnum
  numPreImplTagAdShifts :: nat

text \<open>\<^verbatim>\<open>event.args && event.args.data\<close>: the payload, when both objects are there.\<close>

definition args_data :: "TraceEvent \<Rightarrow> Data option" where
  "args_data event = (case args event of None \<Rightarrow> None | Some a \<Rightarrow> data a)"

text \<open>\<^verbatim>\<open>x || []\<close> on an optional array: an array, even an empty one, is truthy.\<close>

definition js_or_array :: "'a list option \<Rightarrow> 'a list" where
  "js_or_array xs = (case xs of None \<Rightarrow> [] | Some v \<Rightarrow> v)"

text \<open>
  The inner loop of \<^verbatim>\<open>isAdShift\<close> for one ad: \<open>True\<close> when it reaches
  \<^verbatim>\<open>return true\<close>, \<open>False\<close> when it runs to its end.
\<close>

fun isAdShift_nodes :: "'r Geometry \<Rightarrow> 'r IFrameElement \<Rightarrow> Node list \<Rightarrow> bool" where
  "isAdShift_nodes geo ad [] = False"
| "isAdShift_nodes geo ad (node # nodes) =
     (let oldRect = js_or_array (old_rect node);
          shiftRect = toClientRect geo oldRect;
          adRect = clientRect ad
      in if overlaps geo shiftRect adRect then True
         else isAdShift_nodes geo ad nodes)"

text \<open>The outer loop over the ads.\<close>

fun isAdShift_ads :: "'r Geometry \<Rightarrow> Data \<Rightarrow> 'r IFrameElement list \<Rightarrow> bool" where
  "isAdShift_ads geo d [] = False"
| "isAdShift_ads geo d (ad # ads) =
     (if isAdShift_nodes geo ad (js_or_array (impacted_nodes d)) then True
      else isAdShift_ads geo d ads)"

definition isAdShift :: "'r Geometry \<Rightarrow> TraceEvent \<Rightarrow> 'r IFrameElement list \<Rightarrow> bool" where
  "isAdShift geo shiftEvent ads =
     (case args_data shiftEvent of
        None \<Rightarrow> False
      | Some d \<Rightarrow> isAdShift_ads geo d ads)"

text \<open>
  \<^verbatim>\<open>acc += event.args.data.score\<close>: a missing score is \<^verbatim>\<open>undefined\<close>, which the
  addition turns into NaN.
\<close>

definition score_number :: "Data \<Rightarrow> jsnum" where
  "score_number d = (case Data.score d of None \<Rightarrow> NaN | Some s \<Rightarrow> Fin s)"

text \<open>The loop of \<^verbatim>\<open>compute\<close> over the shift events, on its six variables.\<close>

fun compute_loop ::
  "'r Geometry \<Rightarrow> 'r IFrameElement list \<Rightarrow> jsnum \<Rightarrow> TraceEvent list \<Rightarrow> Details \<Rightarrow> Details" where
  "compute_loop geo ads tagLoadTs [] acc = acc"
| "compute_loop geo ads tagLoadTs (event # events) acc =
     (case args_data event of
        None \<Rightarrow> compute_loop geo ads tagLoadTs events acc
      | Some d \<Rightarrow>
          if \<not> is_main_frame d \<or> had_recent_input d then
            compute_loop geo ads tagLoadTs events acc
          else
            let acc = acc\<lparr>cumulativeShift := js_add (cumulativeShift acc) (score_number d),
                          numShifts := numShifts acc + 1\<rparr>;
                acc =
                  (if isAdShift geo event ads then
                     let acc = acc\<lparr>cumulativeAdShift :=
                                      js_add (cumulativeAdShift acc) (score_number d),
                                    numAdShifts := numAdShifts acc + 1\<rparr>
                     in if js_lt (Fin (ts event)) tagLoadTs then
                          acc\<lparr>cumulativePreImplTagAdShift :=
                                 js_add (cumulativePreImplTagAdShift acc) (score_number d),
                               numPreImplTagAdShifts := numPreImplTagAdShifts acc + 1\<rparr>
                        else acc
                   else acc)
            in compute_loop geo ads tagLoadTs events acc)"

definition compute ::
  "'r Geometry \<Rightarrow> TraceEvent list \<Rightarrow> 'r IFrameElement list \<Rightarrow> jsnum \<Rightarrow> Details" where
  "compute geo shiftEvents ads tagLoadTs =
     compute_loop geo ads tagLoadTs shiftEvents
       \<lparr>cumulativeShift = Fin 0, numShifts = 0,
        cumulativeAdShift = Fin 0, numAdShifts = 0,
        cumulativePreImplTagAdShift = Fin 0, numPreImplTagAdShifts = 0\<rparr>"

text \<open>
  What \<^verbatim>\<open>CumulativeAdShift.audit\<close> takes from other modules: the geometry helpers,
  the classifiers, \<^verbatim>\<open>getScriptUrl\<close>, Lighthouse's \<^verbatim>\<open>Audit.computeLogNormalScore\<close> in
  its form \<open>(options, value)\<close>, and \<^verbatim>\<open>Number.prototype.toLocaleString\<close>.
\<close>

record 'r Imports =
  geometry :: "'r Geometry"
  classification :: "'r ResourceClassification"
  getScriptUrl :: "TraceEvent \<Rightarrow> string option"
  computeLogNormalScore :: "ScoreOptions \<Rightarrow> jsnum \<Rightarrow> jsnum"
  toLocaleString :: "jsnum \<Rightarrow> string \<Rightarrow> string"

text \<open>
  \<^verbatim>\<open>trace.traceEvents.find(...) || {ts: Infinity}\<close>, then \<^verbatim>\<open>.ts\<close>: the timestamp of
  the first event whose script URL is an implementation tag, or Infinity.
\<close>

definition tagLoadEvent_ts :: "'r Imports \<Rightarrow> TraceEvent list \<Rightarrow> jsnum" where
  "tagLoadEvent_ts imp traceEvents =
     (case find (\<lambda>e. isImplTag (classification imp) (js_or_string (getScriptUrl imp e) [])) traceEvents of
        None \<Rightarrow> PosInf
      | Some e \<Rightarrow> Fin (ts e))"

definition CumulativeAdShift_audit ::
  "'r Imports \<Rightarrow> TraceEvent list \<Rightarrow> 'r IFrameElement list \<Rightarrow> ScoreOptions \<Rightarrow> string
    \<Rightarrow> Details auditResult" where
  "CumulativeAdShift_audit imp traceEvents IFrameElements options locale =
     (let shiftEvents = filter (\<lambda>e. name e = ''LayoutShift'') traceEvents
      in if length shiftEvents = 0 then NotApplicable NoLayoutShifts
         else
           let tagLoadTs = tagLoadEvent_ts imp traceEvents;
               ads = filter (isAdIframe (classification imp)) IFrameElements
           in if length ads = 0 then NotApplicable NoAdRendered
              else
                let details = compute (geometry imp) shiftEvents ads tagLoadTs;
                    rawScore = cumulativeAdShift details
                in Result \<lparr>numericValue = rawScore,
                           numericUnit = Some ''unitless'',
                           score = computeLogNormalScore imp options rawScore,
                           displayValue = Some (toLocaleString imp rawScore locale),
                           details = Some details\<rparr>)"


section \<open>GptBidsInParallel (gpt-bids-parallel, src/unnamed/part 001)\<close>

text \<open>
  \<^verbatim>\<open>timingsByRecord.get(bid) || bid\<close>, destructured into \<open>(startTime, endTime)\<close>: the
  simulated timing when the map has one for the bid, the bid's own times otherwise.
\<close>

definition bid_timing :: "(NetworkRequest \<rightharpoonup> NodeTiming) \<Rightarrow> NetworkRequest \<Rightarrow> real \<times> real" where
  "bid_timing timingsByRecord bid =
     (case timingsByRecord bid of
        Some t \<Rightarrow> (NodeTiming.startTime t, endTime t)
      | None \<Rightarrow> (NodeTiming.startTime bid, endTime bid))"

text \<open>
  The loop over the bids, on its two variables \<open>seen\<close> and \<open>tableView\<close>.
  \<^verbatim>\<open>getCriticalGraph\<close> (of \<^verbatim>\<open>utils/graph\<close>) is a parameter; the set it returns is asked
  for the implementation tag's record.
\<close>

fun audit_loop ::
  "'r ResourceClassification
    \<Rightarrow> (NetworkRequest list \<Rightarrow> TraceEvent list \<Rightarrow> NetworkRequest \<Rightarrow> NetworkRequest set)
    \<Rightarrow> NetworkRequest list \<Rightarrow> TraceEvent list \<Rightarrow> (NetworkRequest \<rightharpoonup> NodeTiming)
    \<Rightarrow> NetworkRequest \<Rightarrow> NetworkRequest list \<Rightarrow> string set \<times> TableRow list
    \<Rightarrow> string set \<times> TableRow list" where
  "audit_loop rc getCriticalGraph network traceEvents timingsByRecord pubadsImpl []
     (seen, tableView) = (seen, tableView)"
| "audit_loop rc getCriticalGraph network traceEvents timingsByRecord pubadsImpl (bid # bids)
     (seen, tableView) =
     (if pubadsImpl \<in> getCriticalGraph network traceEvents bid then
        let (startTime, endTime) = bid_timing timingsByRecord bid;
            bidder = js_or_string (getHeaderBidder rc (url bid)) []
        in if bidder \<in> seen then
             audit_loop rc getCriticalGraph network traceEvents timingsByRecord pubadsImpl bids
               (seen, tableView)
           else
             audit_loop rc getCriticalGraph network traceEvents timingsByRecord pubadsImpl bids
               (insert bidder seen,
                tableView @ [\<lparr>bidder = bidder,
                               url = getAbbreviatedUrl rc (url bid),
                               startTime = startTime,
                               duration = endTime - startTime\<rparr>])
      else
        audit_loop rc getCriticalGraph network traceEvents timingsByRecord pubadsImpl bids
          (seen, tableView))"

text \<open>
  \<^verbatim>\<open>Audit.makeTableDetails(HEADINGS, tableView)\<close>: the table of the report, the keys of
  its headings and its rows.
\<close>

record TableDetails =
  headings :: "string list"
  items :: "TableRow list"

definition HEADINGS :: "string list" where
  "HEADINGS = [''bidder'', ''url'', ''startTime'', ''duration'']"

definition makeTableDetails :: "string list \<Rightarrow> TableRow list \<Rightarrow> TableDetails" where
  "makeTableDetails hs results = \<lparr>headings = hs, items = results\<rparr>"

text \<open>
  \<^verbatim>\<open>GptBidsInParallel.audit\<close>. \<open>network\<close> is the awaited \<^verbatim>\<open>NetworkRecords.request\<close>,
  \<open>timingsByRecord\<close> the awaited \<^verbatim>\<open>getTimingsByRecord\<close>, a map keyed by the records.
\<close>

definition GptBidsInParallel_audit ::
  "'r ResourceClassification
    \<Rightarrow> (NetworkRequest list \<Rightarrow> TraceEvent list \<Rightarrow> NetworkRequest \<Rightarrow> NetworkRequest set)
    \<Rightarrow> NetworkRequest list \<Rightarrow> TraceEvent list \<Rightarrow> (NetworkRequest \<rightharpoonup> NodeTiming)
    \<Rightarrow> TableDetails auditResult" where
  "GptBidsInParallel_audit rc getCriticalGraph network traceEvents timingsByRecord =
     (case find (\<lambda>r. isImplTag rc (url r)) network of
        None \<Rightarrow> NotApplicable NO_TAG
      | Some pubadsImpl \<Rightarrow>
          let bids = filter (\<lambda>b. frameId b = frameId pubadsImpl)
                       (filter (isBidRequest rc) network)
          in if length bids = 0 then NotApplicable NO_BIDS
             else
               let tableView = snd (audit_loop rc getCriticalGraph network traceEvents
                                      timingsByRecord pubadsImpl bids ({}, []));
                   failed = (length tableView > 0)
               in Result \<lparr>numericValue = Fin (real (length tableView)),
                          numericUnit = None,
                          score = (if failed then Fin 0 else Fin 1),
                          displayValue = None,
                          details = (if failed then Some (makeTableDetails HEADINGS tableView)
                                     else None)\<rparr>)"


section \<open>Notions used to state the properties\<close>

text \<open>
  The shift events that the loop of \<^verbatim>\<open>compute\<close> does not skip: those with a payload
  that is flagged as main-frame and not as following recent input.
\<close>

definition countedShift :: "TraceEvent \<Rightarrow> bool" where
  "countedShift event =
     (case args_data event of None \<Rightarrow> False
      | Some d \<Rightarrow> is_main_frame d \<and> \<not> had_recent_input d)"

text \<open>An event whose payload carries a score, and a non-negative one.\<close>

definition nonNegativeScore :: "TraceEvent \<Rightarrow> bool" where
  "nonNegativeScore event =
     (case args_data event of None \<Rightarrow> False
      | Some d \<Rightarrow> (case Data.score d of None \<Rightarrow> False | Some s \<Rightarrow> 0 \<le> s))"

text \<open>
  The invariant of the three sums under non-negative scores: all finite, non-negative
  and in order.
\<close>

definition ordered_sums :: "Details \<Rightarrow> bool" where
  "ordered_sums acc =
     (\<exists>a b c. cumulativePreImplTagAdShift acc = Fin a \<and> cumulativeAdShift acc = Fin b \<and>
        cumulativeShift acc = Fin c \<and> 0 \<le> a \<and> a \<le> b \<and> b \<le> c)"

text \<open>The row that the loop of \<^verbatim>\<open>GptBidsInParallel.audit\<close> pushes for a bid.\<close>

definition tableRow ::
  "'r ResourceClassification \<Rightarrow> (NetworkRequest \<rightharpoonup> NodeTiming) \<Rightarrow> NetworkRequest \<Rightarrow> TableRow" where
  "tableRow rc timingsByRecord bid =
     \<lparr>bidder = js_or_string (getHeaderBidder rc (url bid)) [],
      url = getAbbreviatedUrl rc (url bid),
      startTime = fst (bid_timing timingsByRecord bid),
      duration = snd (bid_timing timingsByRecord bid) - fst (bid_timing timingsByRecord bid)\<rparr>"

text \<open>
  The bids for which that loop pushes a row, in the order of the pushes: those with the
  implementation tag in their critical graph and a bidder not seen before.
\<close>

fun reported_bids ::
  "'r ResourceClassification
    \<Rightarrow> (NetworkRequest list \<Rightarrow> TraceEvent list \<Rightarrow> NetworkRequest \<Rightarrow> NetworkRequest set)
    \<Rightarrow> NetworkRequest list \<Rightarrow> TraceEvent list
    \<Rightarrow> NetworkRequest \<Rightarrow> NetworkRequest list \<Rightarrow> string set \<Rightarrow> NetworkRequest list" where
  "reported_bids rc getCriticalGraph network traceEvents pubadsImpl [] seen = []"
| "reported_bids rc getCriticalGraph network traceEvents pubadsImpl (bid # bids) seen =
     (if pubadsImpl \<in> getCriticalGraph network traceEvents bid
         \<and> js_or_string (getHeaderBidder rc (url bid)) [] \<notin> seen
      then bid # reported_bids rc getCriticalGraph network traceEvents pubadsImpl bids
                   (insert (js_or_string (getHeaderBidder rc (url bid)) []) seen)
      else reported_bids rc getCriticalGraph network traceEvents pubadsImpl bids seen)"


section \<open>A page to run the audits on\<close>

text \<open>
  Rectangles as \<open>(left, top, right, bottom)\<close>, with the usual overlap test, and an
  array \<open>[left, top, width, height]\<close> turned into one.
\<close>

type_synonym rect = "real \<times> real \<times> real \<times> real"

fun page_overlaps :: "rect \<Rightarrow> rect \<Rightarrow> bool" where
  "page_overlaps (l1, t1, r1, b1) (l2, t2, r2, b2) = (l1 < r2 \<and> l2 < r1 \<and> t1 < b2 \<and> t2 < b1)"

fun page_toClientRect :: "real list \<Rightarrow> rect" where
  "page_toClientRect [l, t, w, h] = (l, t, l + w, t + h)"
| "page_toClientRect _ = (0, 0, 0, 0)"

definition page_classification :: "rect ResourceClassification" where
  "page_classification =
     \<lparr>isAdIframe = (\<lambda>f. src f = ''ad''),
      isImplTag = (\<lambda>u. u = ''gpt''),
      isBidRequest = (\<lambda>r. requestId r \<noteq> ''1''),
      getAbbreviatedUrl = (\<lambda>u. u),
      getHeaderBidder = (\<lambda>u. if u = ''rubicon'' then Some ''Rubicon'' else None)\<rparr>"

definition page_imports :: "rect Imports" where
  "page_imports =
     \<lparr>geometry = \<lparr>overlaps = page_overlaps, toClientRect = page_toClientRect\<rparr>,
      classification = page_classification,
      getScriptUrl = (\<lambda>e. if name e = ''EvaluateScript'' then Some ''app'' else None),
      computeLogNormalScore = (\<lambda>options v. Fin (1 / 2)),
      toLocaleString = (\<lambda>v locale. ''0.3'')\<rparr>"

text \<open>
  Three layout shifts: one over the ad, one elsewhere, one after user input; and a
  script evaluation that is no implementation tag.
\<close>

definition shift_on_ad :: TraceEvent where
  "shift_on_ad =
     \<lparr>name = ''LayoutShift'', ts = 10,
      args = Some \<lparr>data = Some \<lparr>is_main_frame = True, had_recent_input = False,
        score = Some (3 / 10),
        impacted_nodes = Some [\<lparr>old_rect = Some [0, 0, 100, 100]\<rparr>]\<rparr>\<rparr>\<rparr>"

definition shift_elsewhere :: TraceEvent where
  "shift_elsewhere =
     \<lparr>name = ''LayoutShift'', ts = 20,
      args = Some \<lparr>data = Some \<lparr>is_main_frame = True, had_recent_input = False,
        score = Some (1 / 10),
        impacted_nodes = Some [\<lparr>old_rect = Some [500, 500, 10, 10]\<rparr>]\<rparr>\<rparr>\<rparr>"

definition shift_after_input :: TraceEvent where
  "shift_after_input =
     \<lparr>name = ''LayoutShift'', ts = 30,
      args = Some \<lparr>data = Some \<lparr>is_main_frame = True, had_recent_input = True,
        score = Some (2 / 10),
        impacted_nodes = Some [\<lparr>old_rect = Some [0, 0, 100, 100]\<rparr>]\<rparr>\<rparr>\<rparr>"

definition shift_without_args :: TraceEvent where
  "shift_without_args = \<lparr>name = ''LayoutShift'', ts = 40, args = None\<rparr>"

definition script_event :: TraceEvent where
  "script_event = \<lparr>name = ''EvaluateScript'', ts = 5, args = None\<rparr>"

definition page_traceEvents :: "TraceEvent list" where
  "page_traceEvents = [script_event, shift_on_ad, shift_elsewhere, shift_after_input]"

definition page_shiftEvents :: "TraceEvent list" where
  "page_shiftEvents = [shift_on_ad, shift_elsewhere, shift_after_input]"

definition page_ads :: "rect IFrameElement list" where
  "page_ads = [\<lparr>src = ''ad'', clientRect = (50, 50, 350, 300)\<rparr>]"

definition page_iframes :: "rect IFrameElement list" where
  "page_iframes = \<lparr>src = ''video'', clientRect = (0, 400, 100, 500)\<rparr> # page_ads"

text \<open>
  The network log: the implementation tag and four bid requests in its frame. The first,
  second and fourth bid have the tag in their critical graph; the first two are of no
  known bidder; only the fourth has a simulated timing.
\<close>

definition pubads_impl :: NetworkRequest where
  "pubads_impl = \<lparr>startTime = 0, endTime = 500, requestId = ''1'', url = ''gpt'',
                   frameId = Some ''main''\<rparr>"

definition bid_a :: NetworkRequest where
  "bid_a = \<lparr>startTime = 500, endTime = 900, requestId = ''2'', url = ''bid-a'',
             frameId = Some ''main''\<rparr>"

definition bid_b :: NetworkRequest where
  "bid_b = \<lparr>startTime = 510, endTime = 700, requestId = ''3'', url = ''bid-b'',
             frameId = Some ''main''\<rparr>"

definition bid_c :: NetworkRequest where
  "bid_c = \<lparr>startTime = 100, endTime = 200, requestId = ''4'', url = ''bid-c'',
             frameId = Some ''main''\<rparr>"

definition bid_d :: NetworkRequest where
  "bid_d = \<lparr>startTime = 520, endTime = 800, requestId = ''5'', url = ''rubicon'',
             frameId = Some ''main''\<rparr>"

definition page_network :: "NetworkRequest list" where
  "page_network = [pubads_impl, bid_a, bid_b, bid_c, bid_d]"

definition page_criticalGraph ::
  "NetworkRequest list \<Rightarrow> TraceEvent list \<Rightarrow> NetworkRequest \<Rightarrow> NetworkRequest set" where
  "page_criticalGraph network traceEvents r =
     (if requestId r = ''4'' then {} else set (filter (\<lambda>x. requestId x = ''1'') network))"

definition page_timings :: "NetworkRequest \<rightharpoonup> NodeTiming" where
  "page_timings = [bid_d \<mapsto> \<lparr>startTime = 300, endTime = 450\<rparr>]"

definition page_table :: TableDetails where
  "page_table =
     \<lparr>headings = HEADINGS,
      items = [\<lparr>bidder = [], url = ''bid-a'', startTime = 500, duration = 400\<rparr>,
               \<lparr>bidder = ''Rubicon'', url = ''rubicon'', startTime = 300, duration = 150\<rparr>]\<rparr>"

definition page_product :: "TableDetails Product" where
  "page_product =
     \<lparr>numericValue = Fin 2, numericUnit = None, score = Fin 0, displayValue = None,
      details = Some page_table\<rparr>"


section \<open>Properties of FirstAdPaint\<close>

lemma js_gt_zero_cases:
  "js_gt t (Fin 0) \<longleftrightarrow> t = PosInf \<or> (\<exists>r. t = Fin r \<and> 0 < r)"
  by (cases t) (simp_all add: js_gt_def)

text \<open>
  C3. For a timing that passes the guard \<^verbatim>\<open>timing > 0\<close>, the score of the returned
  product is exactly 1 when the curve's value at \<open>(timing, PODR, MEDIAN)\<close> is at least
  0.9 and is that value unchanged otherwise. The curve is any function at all, called
  once with those arguments: the clamp is the audit's, applied to what the evaluator
  returned.
\<close>

theorem FirstAdPaint_score_clamp:
  assumes "js_gt timing (Fin 0)"
  shows "(\<exists>p. fst (FirstAdPaint_audit curve disp timing context) = Result p \<and>
            Product.score p =
              (if js_ge (curve timing PODR MEDIAN) (Fin (9 / 10)) then Fin 1
               else curve timing PODR MEDIAN)) \<and>
         scoreCalls (snd (FirstAdPaint_audit curve disp timing context))
           = scoreCalls context @ [(timing, PODR, MEDIAN)]"
  using assms by (simp add: FirstAdPaint_audit_def Let_def)

theorem FirstAdPaint_score_clamp_witness:
  "js_gt (Fin 2500) (Fin 0) \<and>
   (\<exists>p. fst (FirstAdPaint_audit (\<lambda>v p m. Fin (95 / 100)) (\<lambda>t. ''t'') (Fin 2500)
             \<lparr>LighthouseRunWarnings = [], scoreCalls = []\<rparr>) = Result p \<and>
        Product.score p = Fin 1) \<and>
   (\<exists>p. fst (FirstAdPaint_audit (\<lambda>v p m. Fin (1 / 2)) (\<lambda>t. ''t'') (Fin 2500)
             \<lparr>LighthouseRunWarnings = [], scoreCalls = []\<rparr>) = Result p \<and>
        Product.score p = Fin (1 / 2))"
proof -
  have h: "js_gt (Fin 2500) (Fin 0)" by (simp add: js_gt_def)
  show ?thesis
    using h
      FirstAdPaint_score_clamp [OF h, of "\<lambda>v p m. Fin (95 / 100)" "\<lambda>t. ''t''"
        "\<lparr>LighthouseRunWarnings = [], scoreCalls = []\<rparr>"]
      FirstAdPaint_score_clamp [OF h, of "\<lambda>v p m. Fin (1 / 2)" "\<lambda>t. ''t''"
        "\<lparr>LighthouseRunWarnings = [], scoreCalls = []\<rparr>"]
    by (simp add: js_ge_def)
qed

text \<open>
  C4, as amended. A timing that is NaN, zero or negative (minus infinity included) makes
  the audit push the run warning and return the not-applicable product, and leaves the
  log of curve calls as it was. Whatever the timing, the audit calls the curve at most
  once, with \<open>(timing, PODR, MEDIAN)\<close>, and only for a timing that is strictly positive:
  a positive finite number or plus infinity, which the guard \<^verbatim>\<open>!(timing > 0)\<close> lets
  through.
\<close>

theorem FirstAdPaint_guard:
  "(timing = NaN \<or> timing = NegInf \<or> (\<exists>r. timing = Fin r \<and> r \<le> 0) \<longrightarrow>
      FirstAdPaint_audit curve disp timing context =
        (NotApplicable NoAdRendered,
         context\<lparr>LighthouseRunWarnings :=
           LighthouseRunWarnings context @ [Warning_NoAdRendered]\<rparr>)) \<and>
   (\<exists>calls. scoreCalls (snd (FirstAdPaint_audit curve disp timing context))
              = scoreCalls context @ calls \<and>
      (\<forall>c \<in> set calls. c = (timing, PODR, MEDIAN) \<and>
         (timing = PosInf \<or> (\<exists>r. timing = Fin r \<and> 0 < r))))"
proof (intro conjI impI)
  assume "timing = NaN \<or> timing = NegInf \<or> (\<exists>r. timing = Fin r \<and> r \<le> 0)"
  then have "\<not> js_gt timing (Fin 0)"
    by (auto simp: js_gt_def)
  then show "FirstAdPaint_audit curve disp timing context =
        (NotApplicable NoAdRendered,
         context\<lparr>LighthouseRunWarnings :=
           LighthouseRunWarnings context @ [Warning_NoAdRendered]\<rparr>)"
    by (simp add: FirstAdPaint_audit_def)
next
  show "\<exists>calls. scoreCalls (snd (FirstAdPaint_audit curve disp timing context))
              = scoreCalls context @ calls \<and>
      (\<forall>c \<in> set calls. c = (timing, PODR, MEDIAN) \<and>
         (timing = PosInf \<or> (\<exists>r. timing = Fin r \<and> 0 < r)))"
  proof (cases "js_gt timing (Fin 0)")
    case False
    then have "scoreCalls (snd (FirstAdPaint_audit curve disp timing context))
        = scoreCalls context @ []"
      by (simp add: FirstAdPaint_audit_def)
    then show ?thesis by (intro exI [of _ "[]"]) simp
  next
    case True
    then have "scoreCalls (snd (FirstAdPaint_audit curve disp timing context))
        = scoreCalls context @ [(timing, PODR, MEDIAN)]"
      by (simp add: FirstAdPaint_audit_def Let_def)
    with True show ?thesis
      by (intro exI [of _ "[(timing, PODR, MEDIAN)]"]) (simp add: js_gt_zero_cases)
  qed
qed

theorem FirstAdPaint_guard_witness:
  "FirstAdPaint_audit (\<lambda>v p m. Fin (1 / 2)) (\<lambda>t. ''t'') NaN
       \<lparr>LighthouseRunWarnings = [], scoreCalls = []\<rparr>
     = (NotApplicable NoAdRendered,
        \<lparr>LighthouseRunWarnings = [Warning_NoAdRendered], scoreCalls = []\<rparr>) \<and>
   FirstAdPaint_audit (\<lambda>v p m. Fin (1 / 2)) (\<lambda>t. ''t'') (Fin 0)
       \<lparr>LighthouseRunWarnings = [], scoreCalls = []\<rparr>
     = (NotApplicable NoAdRendered,
        \<lparr>LighthouseRunWarnings = [Warning_NoAdRendered], scoreCalls = []\<rparr>) \<and>
   scoreCalls (snd (FirstAdPaint_audit (\<lambda>v p m. Fin (1 / 2)) (\<lambda>t. ''t'') (Fin 2500)
       \<lparr>LighthouseRunWarnings = [], scoreCalls = []\<rparr>)) = [(Fin 2500, PODR, MEDIAN)]"
  using
    FirstAdPaint_guard [of NaN "\<lambda>v p m. Fin (1 / 2)" "\<lambda>t. ''t''"
      "\<lparr>LighthouseRunWarnings = [], scoreCalls = []\<rparr>"]
    FirstAdPaint_guard [of "Fin 2500" "\<lambda>v p m. Fin (1 / 2)" "\<lambda>t. ''t''"
      "\<lparr>LighthouseRunWarnings = [], scoreCalls = []\<rparr>"]
    FirstAdPaint_guard [of "Fin 0" "\<lambda>v p m. Fin (1 / 2)" "\<lambda>t. ''t''"
      "\<lparr>LighthouseRunWarnings = [], scoreCalls = []\<rparr>"]
  by (simp add: FirstAdPaint_audit_def js_gt_def Let_def)

text \<open>
  The claim as stated fails at a timing of plus infinity: it passes the guard, and the
  curve is called with a timing that is not finite.
\<close>

theorem FirstAdPaint_infinite_timing_counterexample:
  "scoreCalls (snd (FirstAdPaint_audit (\<lambda>v p m. Fin 0) (\<lambda>t. ''t'') PosInf
       \<lparr>LighthouseRunWarnings = [], scoreCalls = []\<rparr>)) = [(PosInf, PODR, MEDIAN)] \<and>
   \<not> js_finite PosInf"
  by (simp add: FirstAdPaint_audit_def js_gt_def Let_def)


section \<open>Properties of CumulativeAdShift\<close>

lemmas page_shift_defs = page_imports_def page_classification_def page_traceEvents_def
  page_shiftEvents_def page_ads_def page_iframes_def shift_on_ad_def shift_elsewhere_def
  shift_after_input_def shift_without_args_def script_event_def





text \<open>
  C7. When the trace has no event named LayoutShift the audit returns the
  not-applicable product \<^verbatim>\<open>NoLayoutShifts\<close>, and when it has some but no iframe element
  is classified as an ad iframe it returns \<^verbatim>\<open>NoAdRendered\<close>: in both cases a
  not-applicable product, no score and no error.
\<close>

theorem CumulativeAdShift_not_applicable:
  assumes "filter (\<lambda>e. name e = ''LayoutShift'') traceEvents = [] \<or>
           filter (isAdIframe (classification imp)) IFrameElements = []"
  shows "CumulativeAdShift_audit imp traceEvents IFrameElements options locale =
           NotApplicable (if filter (\<lambda>e. name e = ''LayoutShift'') traceEvents = []
                          then NoLayoutShifts else NoAdRendered)"
  using assms by (auto simp: CumulativeAdShift_audit_def Let_def)

theorem CumulativeAdShift_not_applicable_witness:
  "filter (\<lambda>e. name e = ''LayoutShift'') [script_event] = [] \<and>
   CumulativeAdShift_audit page_imports [script_event] page_iframes defaultOptions ''en''
     = NotApplicable NoLayoutShifts \<and>
   filter (isAdIframe (classification page_imports)) [] = [] \<and>
   CumulativeAdShift_audit page_imports page_traceEvents [] defaultOptions ''en''
     = NotApplicable NoAdRendered"
proof -
  have h1: "filter (\<lambda>e. name e = ''LayoutShift'') [script_event] = [] \<or>
            filter (isAdIframe (classification page_imports)) page_iframes = []"
    by (simp add: script_event_def)
  have h2: "filter (\<lambda>e. name e = ''LayoutShift'') page_traceEvents = [] \<or>
            filter (isAdIframe (classification page_imports)) [] = []"
    by simp
  show ?thesis
    using CumulativeAdShift_not_applicable [OF h1, of defaultOptions "''en''"]
      CumulativeAdShift_not_applicable [OF h2, of defaultOptions "''en''"]
    by (simp add: page_shift_defs)
qed

lemma compute_loop_counts:
  "numPreImplTagAdShifts acc \<le> numAdShifts acc \<Longrightarrow> numAdShifts acc \<le> numShifts acc \<Longrightarrow>
   numPreImplTagAdShifts (compute_loop geo ads t events acc)
     \<le> numAdShifts (compute_loop geo ads t events acc) \<and>
   numAdShifts (compute_loop geo ads t events acc)
     \<le> numShifts (compute_loop geo ads t events acc)"
  by (induction events arbitrary: acc) (simp_all add: Let_def split: option.splits)

lemma compute_loop_filter:
  "compute_loop geo ads t (filter countedShift events) acc = compute_loop geo ads t events acc"
  by (induction events arbitrary: acc) (simp_all add: countedShift_def Let_def split: option.splits)

lemma compute_loop_numShifts:
  "numShifts (compute_loop geo ads t events acc)
     = numShifts acc + length (filter countedShift events)"
  by (induction events arbitrary: acc) (simp_all add: countedShift_def Let_def split: option.splits)

lemma compute_loop_step_sums:
  assumes "args_data e = Some d" "is_main_frame d" "\<not> had_recent_input d"
    and "Data.score d = Some s" "0 \<le> s" and "ordered_sums acc"
  shows "\<exists>acc'. (\<forall>events. compute_loop geo ads t (e # events) acc
                      = compute_loop geo ads t events acc') \<and> ordered_sums acc'"
proof -
  from assms(6) obtain a b c where abc:
    "cumulativePreImplTagAdShift acc = Fin a" "cumulativeAdShift acc = Fin b"
    "cumulativeShift acc = Fin c" "0 \<le> a" "a \<le> b" "b \<le> c"
    by (auto simp: ordered_sums_def)
  show ?thesis
  proof (cases "isAdShift geo e ads")
    case False
    with assms abc show ?thesis
      apply (simp add: Let_def score_number_def)
      apply (rule exI, rule conjI, rule allI, rule refl)
      apply (simp add: ordered_sums_def)
      done
  next
    case ad: True
    show ?thesis
    proof (cases "js_lt (Fin (ts e)) t")
      case True
      with ad assms abc show ?thesis
        apply (simp add: Let_def score_number_def)
        apply (rule exI, rule conjI, rule allI, rule refl)
        apply (simp add: ordered_sums_def)
        done
    next
      case False
      with ad assms abc show ?thesis
        apply (simp add: Let_def score_number_def)
        apply (rule exI, rule conjI, rule allI, rule refl)
        apply (simp add: ordered_sums_def)
        done
    qed
  qed
qed

lemma compute_loop_sums:
  "ordered_sums acc \<Longrightarrow> \<forall>e \<in> set events. countedShift e \<longrightarrow> nonNegativeScore e \<Longrightarrow>
   ordered_sums (compute_loop geo ads t events acc)"
proof (induction events arbitrary: acc)
  case Nil
  then show ?case by simp
next
  case (Cons e events)
  show ?case
  proof (cases "countedShift e")
    case False
    then have "compute_loop geo ads t (e # events) acc = compute_loop geo ads t events acc"
      by (auto simp: countedShift_def split: option.splits)
    with Cons show ?thesis by simp
  next
    case True
    with Cons.prems(2) have nn: "nonNegativeScore e" by simp
    from True nn obtain d s where d: "args_data e = Some d" "is_main_frame d"
      "\<not> had_recent_input d" "Data.score d = Some s" "0 \<le> s"
      by (auto simp: countedShift_def nonNegativeScore_def split: option.splits)
    from compute_loop_step_sums [OF d Cons.prems(1)] obtain acc' where
      acc': "compute_loop geo ads t (e # events) acc = compute_loop geo ads t events acc'"
        "ordered_sums acc'"
      by blast
    from Cons.prems(2) have "\<forall>e \<in> set events. countedShift e \<longrightarrow> nonNegativeScore e"
      by simp
    from Cons.IH [OF acc'(2) this] acc'(1) show ?thesis by simp
  qed
qed

lemma ordered_sums_le:
  "ordered_sums acc \<Longrightarrow>
   js_le (cumulativePreImplTagAdShift acc) (cumulativeAdShift acc) \<and>
   js_le (cumulativeAdShift acc) (cumulativeShift acc)"
  by (auto simp: ordered_sums_def js_le_def js_ge_def)

lemma compute_loop_PosInf:
  "numPreImplTagAdShifts acc = numAdShifts acc \<Longrightarrow>
   cumulativePreImplTagAdShift acc = cumulativeAdShift acc \<Longrightarrow>
   numPreImplTagAdShifts (compute_loop geo ads PosInf events acc)
     = numAdShifts (compute_loop geo ads PosInf events acc) \<and>
   cumulativePreImplTagAdShift (compute_loop geo ads PosInf events acc)
     = cumulativeAdShift (compute_loop geo ads PosInf events acc)"
  by (induction events arbitrary: acc) (simp_all add: Let_def split: option.splits)

text \<open>
  C8. The three counters of \<^verbatim>\<open>compute\<close> are in order; the events that are skipped
  (no payload, not main-frame, or after recent input) contribute nothing, the result
  being that of the counted events alone, and \<open>numShifts\<close> is their number; and when
  every counted event has a non-negative score the three sums are in order too.
\<close>

theorem compute_invariants:
  "numPreImplTagAdShifts (compute geo shiftEvents ads tagLoadTs)
     \<le> numAdShifts (compute geo shiftEvents ads tagLoadTs) \<and>
   numAdShifts (compute geo shiftEvents ads tagLoadTs)
     \<le> numShifts (compute geo shiftEvents ads tagLoadTs) \<and>
   compute geo shiftEvents ads tagLoadTs
     = compute geo (filter countedShift shiftEvents) ads tagLoadTs \<and>
   numShifts (compute geo shiftEvents ads tagLoadTs) = length (filter countedShift shiftEvents) \<and>
   ((\<forall>e \<in> set shiftEvents. countedShift e \<longrightarrow> nonNegativeScore e) \<longrightarrow>
      js_le (cumulativePreImplTagAdShift (compute geo shiftEvents ads tagLoadTs))
            (cumulativeAdShift (compute geo shiftEvents ads tagLoadTs)) \<and>
      js_le (cumulativeAdShift (compute geo shiftEvents ads tagLoadTs))
            (cumulativeShift (compute geo shiftEvents ads tagLoadTs)))"
proof -
  let ?init = "\<lparr>cumulativeShift = Fin 0, numShifts = 0,
        cumulativeAdShift = Fin 0, numAdShifts = 0,
        cumulativePreImplTagAdShift = Fin 0, numPreImplTagAdShifts = 0\<rparr>"
  have init: "ordered_sums ?init" by (simp add: ordered_sums_def)
  have counts: "numPreImplTagAdShifts (compute geo shiftEvents ads tagLoadTs)
     \<le> numAdShifts (compute geo shiftEvents ads tagLoadTs) \<and>
   numAdShifts (compute geo shiftEvents ads tagLoadTs)
     \<le> numShifts (compute geo shiftEvents ads tagLoadTs)"
    unfolding compute_def by (rule compute_loop_counts) simp_all
  have filt: "compute geo shiftEvents ads tagLoadTs
     = compute geo (filter countedShift shiftEvents) ads tagLoadTs"
    unfolding compute_def by (simp add: compute_loop_filter)
  have len: "numShifts (compute geo shiftEvents ads tagLoadTs)
      = length (filter countedShift shiftEvents)"
    unfolding compute_def by (simp add: compute_loop_numShifts)
  have sums: "js_le (cumulativePreImplTagAdShift (compute geo shiftEvents ads tagLoadTs))
            (cumulativeAdShift (compute geo shiftEvents ads tagLoadTs)) \<and>
      js_le (cumulativeAdShift (compute geo shiftEvents ads tagLoadTs))
            (cumulativeShift (compute geo shiftEvents ads tagLoadTs))"
    if "\<forall>e \<in> set shiftEvents. countedShift e \<longrightarrow> nonNegativeScore e"
    unfolding compute_def
    by (rule ordered_sums_le, rule compute_loop_sums [OF init that])
  from counts filt len sums show ?thesis by blast
qed


theorem compute_invariants_witness:
  "list_all nonNegativeScore (filter countedShift page_shiftEvents) \<and>
   compute (geometry page_imports) page_shiftEvents page_ads (Fin 15)
     = \<lparr>cumulativeShift = Fin (4 / 10), numShifts = 2,
        cumulativeAdShift = Fin (3 / 10), numAdShifts = 1,
        cumulativePreImplTagAdShift = Fin (3 / 10), numPreImplTagAdShifts = 1\<rparr> \<and>
   js_le (cumulativePreImplTagAdShift
            (compute (geometry page_imports) page_shiftEvents page_ads (Fin 15)))
         (cumulativeAdShift
            (compute (geometry page_imports) page_shiftEvents page_ads (Fin 15))) \<and>
   js_le (cumulativeAdShift
            (compute (geometry page_imports) page_shiftEvents page_ads (Fin 15)))
         (cumulativeShift
            (compute (geometry page_imports) page_shiftEvents page_ads (Fin 15)))"
proof -
  have h: "\<forall>e \<in> set page_shiftEvents. countedShift e \<longrightarrow> nonNegativeScore e"
    by (simp add: page_shift_defs countedShift_def nonNegativeScore_def args_data_def)
  have v: "compute (geometry page_imports) page_shiftEvents page_ads (Fin 15)
     = \<lparr>cumulativeShift = Fin (4 / 10), numShifts = 2,
        cumulativeAdShift = Fin (3 / 10), numAdShifts = 1,
        cumulativePreImplTagAdShift = Fin (3 / 10), numPreImplTagAdShifts = 1\<rparr>"
    by (simp add: compute_def page_shift_defs args_data_def isAdShift_def js_or_array_def
        score_number_def Let_def)
  have l: "list_all nonNegativeScore (filter countedShift page_shiftEvents)"
    by (simp add: page_shift_defs countedShift_def nonNegativeScore_def args_data_def)
  from h l v
    compute_invariants [of "geometry page_imports" page_shiftEvents page_ads "Fin 15"]
  show ?thesis by blast
qed

text \<open>
  C9. When no trace event has a script URL that is classified as an implementation
  tag, the tag-load timestamp that the audit passes to \<^verbatim>\<open>compute\<close> is Infinity: the
  details of every product the audit returns are the result of \<^verbatim>\<open>compute\<close> on the
  LayoutShift events, the ad iframes and Infinity, the product's numeric value is their
  ad-shift sum, and the audit does return that product when there is a LayoutShift
  event and an ad iframe. In those details every ad-related shift is counted as a
  pre-tag shift as well: the pre-tag counter equals the ad-shift counter and the
  pre-tag sum equals the ad-shift sum.
\<close>

theorem CumulativeAdShift_without_impl_tag:
  assumes "\<forall>e \<in> set traceEvents.
             \<not> isImplTag (classification imp) (js_or_string (getScriptUrl imp e) [])"
  shows "tagLoadEvent_ts imp traceEvents = PosInf \<and>
         (\<forall>p. CumulativeAdShift_audit imp traceEvents IFrameElements options locale = Result p
            \<longrightarrow> details p =
                  Some (compute (geometry imp)
                          (filter (\<lambda>e. name e = ''LayoutShift'') traceEvents)
                          (filter (isAdIframe (classification imp)) IFrameElements) PosInf) \<and>
                numericValue p =
                  cumulativeAdShift
                    (compute (geometry imp)
                       (filter (\<lambda>e. name e = ''LayoutShift'') traceEvents)
                       (filter (isAdIframe (classification imp)) IFrameElements) PosInf)) \<and>
         (filter (\<lambda>e. name e = ''LayoutShift'') traceEvents \<noteq> [] \<and>
          filter (isAdIframe (classification imp)) IFrameElements \<noteq> []
            \<longrightarrow> (\<exists>p. CumulativeAdShift_audit imp traceEvents IFrameElements options locale
                       = Result p)) \<and>
         numPreImplTagAdShifts
           (compute (geometry imp)
              (filter (\<lambda>e. name e = ''LayoutShift'') traceEvents)
              (filter (isAdIframe (classification imp)) IFrameElements) PosInf)
           = numAdShifts
               (compute (geometry imp)
                  (filter (\<lambda>e. name e = ''LayoutShift'') traceEvents)
                  (filter (isAdIframe (classification imp)) IFrameElements) PosInf) \<and>
         cumulativePreImplTagAdShift
           (compute (geometry imp)
              (filter (\<lambda>e. name e = ''LayoutShift'') traceEvents)
              (filter (isAdIframe (classification imp)) IFrameElements) PosInf)
           = cumulativeAdShift
               (compute (geometry imp)
                  (filter (\<lambda>e. name e = ''LayoutShift'') traceEvents)
                  (filter (isAdIframe (classification imp)) IFrameElements) PosInf)"
proof -
  let ?shiftEvents = "filter (\<lambda>e. name e = ''LayoutShift'') traceEvents"
  let ?ads = "filter (isAdIframe (classification imp)) IFrameElements"
  let ?d = "compute (geometry imp) ?shiftEvents ?ads PosInf"
  from assms have
    "find (\<lambda>e. isImplTag (classification imp) (js_or_string (getScriptUrl imp e) []))
       traceEvents = None"
    by (simp add: find_None_iff)
  then have inf: "tagLoadEvent_ts imp traceEvents = PosInf"
    by (simp add: tagLoadEvent_ts_def)
  have tie: "details p = Some ?d \<and> numericValue p = cumulativeAdShift ?d"
    if "CumulativeAdShift_audit imp traceEvents IFrameElements options locale = Result p"
    for p
  proof (cases "?shiftEvents = [] \<or> ?ads = []")
    case True
    then have "\<exists>m. CumulativeAdShift_audit imp traceEvents IFrameElements options locale
                 = NotApplicable m"
      by (auto simp: CumulativeAdShift_audit_def Let_def)
    with that show ?thesis by auto
  next
    case False
    with that inf have
      "p = \<lparr>numericValue = cumulativeAdShift ?d, numericUnit = Some ''unitless'',
            score = computeLogNormalScore imp options (cumulativeAdShift ?d),
            displayValue = Some (toLocaleString imp (cumulativeAdShift ?d) locale),
            details = Some ?d\<rparr>"
      by (simp add: CumulativeAdShift_audit_def Let_def)
    then show ?thesis by simp
  qed
  have ret: "\<exists>p. CumulativeAdShift_audit imp traceEvents IFrameElements options locale
               = Result p"
    if "?shiftEvents \<noteq> [] \<and> ?ads \<noteq> []"
    using that by (simp add: CumulativeAdShift_audit_def Let_def)
  have eq: "numPreImplTagAdShifts ?d = numAdShifts ?d \<and>
            cumulativePreImplTagAdShift ?d = cumulativeAdShift ?d"
    unfolding compute_def by (rule compute_loop_PosInf) simp_all
  from inf tie ret eq show ?thesis by blast
qed

theorem CumulativeAdShift_without_impl_tag_witness:
  "list_all (\<lambda>e. js_or_string (getScriptUrl page_imports e) [] \<noteq> ''gpt'') page_traceEvents \<and>
   tagLoadEvent_ts page_imports page_traceEvents = PosInf \<and>
   filter (\<lambda>e. name e = ''LayoutShift'') page_traceEvents = page_shiftEvents \<and>
   filter (isAdIframe (classification page_imports)) page_iframes = page_ads \<and>
   compute (geometry page_imports) page_shiftEvents page_ads PosInf
     = \<lparr>cumulativeShift = Fin (4 / 10), numShifts = 2,
        cumulativeAdShift = Fin (3 / 10), numAdShifts = 1,
        cumulativePreImplTagAdShift = Fin (3 / 10), numPreImplTagAdShifts = 1\<rparr> \<and>
   CumulativeAdShift_audit page_imports page_traceEvents page_iframes defaultOptions ''en''
     = Result \<lparr>numericValue = Fin (3 / 10), numericUnit = Some ''unitless'',
               score = Fin (1 / 2), displayValue = Some ''0.3'',
               details =
                 Some (compute (geometry page_imports) page_shiftEvents page_ads PosInf)\<rparr>"
proof -
  have h: "\<forall>e \<in> set page_traceEvents.
             \<not> isImplTag (classification page_imports)
                 (js_or_string (getScriptUrl page_imports e) [])"
    by (simp add: page_shift_defs js_or_string_def)
  have l: "list_all (\<lambda>e. js_or_string (getScriptUrl page_imports e) [] \<noteq> ''gpt'')
             page_traceEvents"
    by (simp add: page_shift_defs js_or_string_def)
  have f1: "filter (\<lambda>e. name e = ''LayoutShift'') page_traceEvents = page_shiftEvents"
    by (simp add: page_shift_defs)
  have f2: "filter (isAdIframe (classification page_imports)) page_iframes = page_ads"
    by (simp add: page_shift_defs)
  have c: "compute (geometry page_imports) page_shiftEvents page_ads PosInf
     = \<lparr>cumulativeShift = Fin (4 / 10), numShifts = 2,
        cumulativeAdShift = Fin (3 / 10), numAdShifts = 1,
        cumulativePreImplTagAdShift = Fin (3 / 10), numPreImplTagAdShifts = 1\<rparr>"
    by (simp add: compute_def page_shift_defs args_data_def isAdShift_def js_or_array_def
        score_number_def Let_def)
  have ne: "page_shiftEvents \<noteq> [] \<and> page_ads \<noteq> []"
    by (simp add: page_shiftEvents_def page_ads_def)
  from CumulativeAdShift_without_impl_tag [OF h, of page_iframes defaultOptions "''en''"]
    ne obtain p where
    p: "CumulativeAdShift_audit page_imports page_traceEvents page_iframes defaultOptions ''en''
          = Result p"
      "details p = Some (compute (geometry page_imports) page_shiftEvents page_ads PosInf)"
      "numericValue p = cumulativeAdShift
         (compute (geometry page_imports) page_shiftEvents page_ads PosInf)"
      "tagLoadEvent_ts page_imports page_traceEvents = PosInf"
    unfolding f1 f2 by blast
  have v: "CumulativeAdShift_audit page_imports page_traceEvents page_iframes defaultOptions
             ''en''
     = Result \<lparr>numericValue = Fin (3 / 10), numericUnit = Some ''unitless'',
               score = Fin (1 / 2), displayValue = Some ''0.3'',
               details =
                 Some (compute (geometry page_imports) page_shiftEvents page_ads PosInf)\<rparr>"
    using p(4) f1 f2 ne c
    by (simp add: CumulativeAdShift_audit_def Let_def page_imports_def)
  from l p(4) f1 f2 c v show ?thesis by simp
qed


section \<open>Properties of GptBidsInParallel\<close>

lemmas page_defs = page_network_def pubads_impl_def bid_a_def bid_b_def bid_c_def bid_d_def
  page_classification_def page_criticalGraph_def page_timings_def

lemma page_audit:
  "GptBidsInParallel_audit page_classification page_criticalGraph page_network []
     page_timings = Result page_product"
  by (simp add: GptBidsInParallel_audit_def page_defs page_product_def page_table_def
      makeTableDetails_def bid_timing_def js_or_string_def Let_def)

lemma audit_loop_rows:
  "snd (audit_loop rc cg network evs timings impl bids (seen, tableView))
     = tableView @ map (tableRow rc timings) (reported_bids rc cg network evs impl bids seen)"
  by (induction bids arbitrary: seen tableView)
     (simp_all add: tableRow_def Let_def split: prod.splits)

lemma reported_bids_critical:
  "bid \<in> set (reported_bids rc cg network evs impl bids seen)
    \<Longrightarrow> bid \<in> set bids \<and> impl \<in> cg network evs bid"
  by (induction bids arbitrary: seen) (auto split: if_splits)

lemma reported_bids_unseen:
  "bid \<in> set (reported_bids rc cg network evs impl bids seen)
    \<Longrightarrow> js_or_string (getHeaderBidder rc (url bid)) [] \<notin> seen"
  by (induction bids arbitrary: seen) (auto split: if_splits)

lemma reported_bids_distinct:
  "distinct (map (\<lambda>bid. js_or_string (getHeaderBidder rc (url bid)) [])
               (reported_bids rc cg network evs impl bids seen))"
  by (induction bids arbitrary: seen) (auto dest: reported_bids_unseen)

lemma audit_result:
  assumes "GptBidsInParallel_audit rc cg network evs timings = Result p"
    and "details p = Some table"
  shows "\<exists>impl. find (\<lambda>r. isImplTag rc (url r)) network = Some impl \<and>
           items table = map (tableRow rc timings)
             (reported_bids rc cg network evs impl
                (filter (\<lambda>b. frameId b = frameId impl) (filter (isBidRequest rc) network)) {})"
proof (cases "find (\<lambda>r. isImplTag rc (url r)) network")
  case None
  with assms(1) show ?thesis by (simp add: GptBidsInParallel_audit_def)
next
  case (Some impl)
  let ?bids = "filter (\<lambda>b. frameId b = frameId impl) (filter (isBidRequest rc) network)"
  let ?tv = "snd (audit_loop rc cg network evs timings impl ?bids ({}, []))"
  from assms(1) Some have ne: "?bids \<noteq> []"
    by (auto simp: GptBidsInParallel_audit_def Let_def split: if_splits)
  from assms(1) Some ne have
    "details p = (if length ?tv > 0 then Some (makeTableDetails HEADINGS ?tv) else None)"
    by (auto simp: GptBidsInParallel_audit_def Let_def)
  with assms(2) have "table = makeTableDetails HEADINGS ?tv"
    by (simp split: if_splits)
  then have "items table = ?tv" by (simp add: makeTableDetails_def)
  with Some show ?thesis by (simp add: audit_loop_rows)
qed

lemma distinct_count_le_1:
  "distinct (map f xs) \<Longrightarrow> length (filter (\<lambda>x. f x = k) xs) \<le> 1"
  by (induction xs) (auto simp: filter_empty_conv image_iff)

text \<open>
  C1. Every row of the failure table is the row of a bid request of the network log for
  which the implementation tag's record is in the critical graph that
  \<^verbatim>\<open>getCriticalGraph\<close> returns for the network records, the trace events and that bid:
  the table is the list of the rows of such bids, so a bid whose critical graph lacks
  the tag contributes no row.
\<close>

theorem GptBidsInParallel_reports_serialized_only:
  assumes "GptBidsInParallel_audit rc cg network evs timings = Result p"
    and "details p = Some table"
  shows "\<exists>pubadsImpl reported.
           find (\<lambda>r. isImplTag rc (url r)) network = Some pubadsImpl \<and>
           items table = map (tableRow rc timings) reported \<and>
           (\<forall>bid \<in> set reported. bid \<in> set network \<and> isBidRequest rc bid \<and>
              pubadsImpl \<in> cg network evs bid)"
proof -
  from audit_result [OF assms] obtain impl where
    impl: "find (\<lambda>r. isImplTag rc (url r)) network = Some impl"
      "items table = map (tableRow rc timings)
             (reported_bids rc cg network evs impl
                (filter (\<lambda>b. frameId b = frameId impl) (filter (isBidRequest rc) network)) {})"
    by blast
  let ?bids = "filter (\<lambda>b. frameId b = frameId impl) (filter (isBidRequest rc) network)"
  let ?rep = "reported_bids rc cg network evs impl ?bids {}"
  have "\<forall>bid \<in> set ?rep. bid \<in> set network \<and> isBidRequest rc bid \<and> impl \<in> cg network evs bid"
  proof
    fix bid assume "bid \<in> set ?rep"
    from reported_bids_critical [OF this]
    have "bid \<in> set ?bids" and "impl \<in> cg network evs bid" by simp_all
    then show "bid \<in> set network \<and> isBidRequest rc bid \<and> impl \<in> cg network evs bid"
      by simp
  qed
  with impl show ?thesis
    by (intro exI [of _ impl] exI [of _ ?rep] conjI)
qed
theorem GptBidsInParallel_reports_serialized_only_witness:
  "GptBidsInParallel_audit page_classification page_criticalGraph page_network []
     page_timings = Result page_product \<and>
   details page_product = Some page_table \<and>
   find (\<lambda>r. isImplTag page_classification (url r)) page_network = Some pubads_impl \<and>
   items page_table = map (tableRow page_classification page_timings) [bid_a, bid_d] \<and>
   pubads_impl \<in> page_criticalGraph page_network [] bid_a \<and>
   pubads_impl \<in> page_criticalGraph page_network [] bid_d \<and>
   pubads_impl \<notin> page_criticalGraph page_network [] bid_c"
proof -
  have d: "details page_product = Some page_table"
    by (simp add: page_product_def)
  from GptBidsInParallel_reports_serialized_only [OF page_audit d] d page_audit
  show ?thesis
    by (simp add: page_defs page_table_def tableRow_def bid_timing_def js_or_string_def)
qed

text \<open>
  C10. The failure table has at most one row for each bidder name, and so at most one
  row with the empty name that every bid of no recognised bidder gets.
\<close>

theorem GptBidsInParallel_one_row_per_bidder:
  assumes "GptBidsInParallel_audit rc cg network evs timings = Result p"
    and "details p = Some table"
  shows "distinct (map bidder (items table)) \<and>
         length (filter (\<lambda>row. bidder row = []) (items table)) \<le> 1"
proof -
  from audit_result [OF assms] obtain impl where
    impl: "items table = map (tableRow rc timings)
             (reported_bids rc cg network evs impl
                (filter (\<lambda>b. frameId b = frameId impl) (filter (isBidRequest rc) network)) {})"
    by blast
  have eq: "bidder \<circ> tableRow rc timings = (\<lambda>bid. js_or_string (getHeaderBidder rc (url bid)) [])"
    by (rule ext) (simp add: tableRow_def)
  have d: "distinct (map bidder (items table))"
    unfolding impl map_map eq by (rule reported_bids_distinct)
  from d distinct_count_le_1 [OF d, of "[]"] show ?thesis by (rule conjI)
qed
theorem GptBidsInParallel_one_row_per_bidder_witness:
  "GptBidsInParallel_audit page_classification page_criticalGraph page_network []
     page_timings = Result page_product \<and>
   details page_product = Some page_table \<and>
   map bidder (items page_table) = [[], ''Rubicon''] \<and>
   getHeaderBidder page_classification (url bid_a) = None \<and>
   getHeaderBidder page_classification (url bid_b) = None \<and>
   pubads_impl \<in> page_criticalGraph page_network [] bid_b \<and>
   distinct (map bidder (items page_table)) \<and>
   length (filter (\<lambda>row. bidder row = []) (items page_table)) \<le> 1"
proof -
  have d: "details page_product = Some page_table"
    by (simp add: page_product_def)
  from GptBidsInParallel_one_row_per_bidder [OF page_audit d] d page_audit
  show ?thesis
    by (simp add: page_defs page_table_def)
qed

lemma tableRow_timing:
  "case timings bid of
     Some t \<Rightarrow> TableRow.startTime (tableRow rc timings bid) = NodeTiming.startTime t \<and>
               duration (tableRow rc timings bid) = endTime t - NodeTiming.startTime t
   | None \<Rightarrow> TableRow.startTime (tableRow rc timings bid) = NodeTiming.startTime bid \<and>
             duration (tableRow rc timings bid) = endTime bid - NodeTiming.startTime bid"
  by (simp add: tableRow_def bid_timing_def split: option.splits)

text \<open>
  C5. The failure table is the list of the rows of bids of the network log, and the
  row of a bid has the start time of the bid's simulated timing and the difference of
  that timing's end and start times as its duration when the timing map has an entry
  for the bid, and the bid's own start time and the difference of its own end and start
  times otherwise.
\<close>

theorem GptBidsInParallel_row_timing:
  assumes "GptBidsInParallel_audit rc cg network evs timings = Result p"
    and "details p = Some table"
  shows "\<exists>reported. set reported \<subseteq> set network \<and>
           items table = map (tableRow rc timings) reported \<and>
           (\<forall>bid \<in> set reported.
              case timings bid of
                Some t \<Rightarrow>
                  TableRow.startTime (tableRow rc timings bid) = NodeTiming.startTime t \<and>
                  duration (tableRow rc timings bid) = endTime t - NodeTiming.startTime t
              | None \<Rightarrow>
                  TableRow.startTime (tableRow rc timings bid) = NodeTiming.startTime bid \<and>
                  duration (tableRow rc timings bid) = endTime bid - NodeTiming.startTime bid)"
proof -
  from audit_result [OF assms] obtain impl where
    impl: "items table = map (tableRow rc timings)
             (reported_bids rc cg network evs impl
                (filter (\<lambda>b. frameId b = frameId impl) (filter (isBidRequest rc) network)) {})"
    by blast
  let ?bids = "filter (\<lambda>b. frameId b = frameId impl) (filter (isBidRequest rc) network)"
  let ?rep = "reported_bids rc cg network evs impl ?bids {}"
  have sub: "set ?rep \<subseteq> set network"
  proof
    fix bid assume "bid \<in> set ?rep"
    from reported_bids_critical [OF this] have "bid \<in> set ?bids" by simp
    then show "bid \<in> set network" by simp
  qed
  from sub impl tableRow_timing show ?thesis
    by (intro exI [of _ ?rep] conjI ballI)
qed


theorem GptBidsInParallel_row_timing_witness:
  "GptBidsInParallel_audit page_classification page_criticalGraph page_network []
     page_timings = Result page_product \<and>
   details page_product = Some page_table \<and>
   items page_table = map (tableRow page_classification page_timings) [bid_a, bid_d] \<and>
   page_timings bid_a = None \<and>
   TableRow.startTime (tableRow page_classification page_timings bid_a) = 500 \<and>
   duration (tableRow page_classification page_timings bid_a) = 900 - 500 \<and>
   page_timings bid_d = Some \<lparr>startTime = 300, endTime = 450\<rparr> \<and>
   TableRow.startTime (tableRow page_classification page_timings bid_d) = 300 \<and>
   duration (tableRow page_classification page_timings bid_d) = 450 - 300"
proof -
  have d: "details page_product = Some page_table"
    by (simp add: page_product_def)
  from GptBidsInParallel_row_timing [OF page_audit d] d page_audit
  show ?thesis
    by (simp add: page_defs page_table_def tableRow_def bid_timing_def js_or_string_def)
qed

end
